theory Spec2Isabelle
  imports Main
begin

section \<open>Configuration\<close>

text \<open>
  The controllers read their secrets and lifetimes from \<open>process.env\<close>. The \<open>.env\<close>
  file is not part of the sources, so the configuration is a parameter of every handler.
  Lifetimes are in seconds, as \<open>jsonwebtoken\<close> adds them to the issue time.
\<close>

record env =
  JWT_ACCESS_TOKEN_SECRET :: string
  JWT_ACCESS_TOKEN_EXPIRATION :: nat
  JWT_REFRESH_TOKEN_SECRET :: string
  JWT_REFRESH_TOKEN_EXPIRATION :: nat
  NODE_ENV :: string

section \<open>Signed tokens (jsonwebtoken)\<close>

text \<open>
  \<open>jwt.sign({ username }, secret, { expiresIn })\<close> produces a string that carries the
  payload \<open>{ username, iat, exp }\<close> and an HMAC of it under \<open>secret\<close>. The model is
  symbolic: a well-formed token is the payload together with the secret it was signed
  with, and a signature verifies under exactly that secret. Every other cookie string is
  \<open>Raw\<close>; the empty string is \<open>Raw []\<close>.
\<close>

record payload =
  username :: string
  iat :: nat
  exp :: nat

datatype token = JWT payload string | Raw string

datatype jwt_error = JsonWebTokenError | TokenExpiredError

definition jwt_sign :: "string \<Rightarrow> string \<Rightarrow> nat \<Rightarrow> nat \<Rightarrow> token" where
  "jwt_sign name secret expiresIn now =
     JWT \<lparr>username = name, iat = now, exp = now + expiresIn\<rparr> secret"

text \<open>
  \<open>jwt.verify\<close> first decodes, then checks the signature, then the expiry: a token is
  expired when the clock has reached \<open>exp\<close>.
\<close>

fun jwt_verify :: "token \<Rightarrow> string \<Rightarrow> nat \<Rightarrow> jwt_error + payload" where
  "jwt_verify (Raw s) secret now = Inl JsonWebTokenError"
| "jwt_verify (JWT p signed_with) secret now =
     (if signed_with \<noteq> secret then Inl JsonWebTokenError
      else if exp p \<le> now then Inl TokenExpiredError
      else Inr p)"

text \<open>JavaScript truthiness of a cookie value: \<open>undefined\<close> and \<open>""\<close> are falsy.\<close>

fun falsy :: "token option \<Rightarrow> bool" where
  "falsy None = True"
| "falsy (Some t) = (t = Raw [])"

section \<open>The Redis client (ioredis)\<close>

text \<open>
  \<open>configs/redis.config\<close> creates one shared ioredis client. Only the key
  \<open>"refreshTokens"\<close> matters here: a Redis set of token strings. A command either gets
  a reply or, when the server cannot be reached, an error; \<open>up\<close> says which.
\<close>

datatype failure = RedisFailure | MongoFailure | BcryptFailure

record redis =
  up :: bool
  refreshTokens :: "token set"

text \<open>SADD replies the number of members added.\<close>

definition sadd :: "redis \<Rightarrow> token \<Rightarrow> (failure + nat) \<times> redis" where
  "sadd r t =
     (if up r
      then (Inr (if t \<in> refreshTokens r then 0 else 1),
            r\<lparr>refreshTokens := insert t (refreshTokens r)\<rparr>)
      else (Inl RedisFailure, r))"

text \<open>SISMEMBER replies 1 for a member and 0 otherwise, and changes nothing.\<close>

definition sismember :: "redis \<Rightarrow> token \<Rightarrow> (failure + nat) \<times> redis" where
  "sismember r t =
     (if up r
      then (Inr (if t \<in> refreshTokens r then 1 else 0), r)
      else (Inl RedisFailure, r))"

text \<open>SREM replies the number of members removed; removing an absent member replies 0.\<close>

definition srem :: "redis \<Rightarrow> token \<Rightarrow> (failure + nat) \<times> redis" where
  "srem r t =
     (if up r
      then (Inr (if t \<in> refreshTokens r then 1 else 0),
            r\<lparr>refreshTokens := refreshTokens r - {t}\<rparr>)
      else (Inl RedisFailure, r))"

text \<open>ioredis sends an \<open>undefined\<close> argument as the empty string.\<close>

fun toArg :: "token option \<Rightarrow> token" where
  "toArg None = Raw []"
| "toArg (Some t) = t"

section \<open>The user collection (mongoose)\<close>

record IUser =
  u_username :: string
  u_password :: string

record world =
  mongo_up :: bool
  User :: "IUser list"
  redisClient :: redis

text \<open>\<open>User.findOne({ username })\<close>: the first matching document, or a rejection.\<close>

definition findOne :: "world \<Rightarrow> string \<Rightarrow> failure + IUser option" where
  "findOne w name =
     (if mongo_up w then Inr (find (\<lambda>u. u_username u = name) (User w))
      else Inl MongoFailure)"

section \<open>Requests and responses (express)\<close>

text \<open>
  \<open>req.body\<close> is whatever JSON the client sent; nothing validates it. The password is
  \<open>Some\<close> string, or \<open>None\<close> when the field is absent or is not a string. The username
  is taken to be a string.
\<close>

record request =
  body_username :: string
  body_password :: "string option"
  cookies_accessToken :: "token option"
  cookies_refreshToken :: "token option"
  user :: "payload option"

record cookie_options =
  httpOnly :: bool
  secure :: bool
  sameSite :: string
  maxAge :: nat

record response =
  status :: nat
  message :: string
  body_user :: "IUser option"
  body_error :: "failure option"
  set_cookies :: "(string \<times> token \<times> cookie_options) list"
  cleared_cookies :: "string list"

text \<open>\<open>res.status(st).json({ message })\<close> with no cookie touched.\<close>

definition json :: "nat \<Rightarrow> string \<Rightarrow> response" where
  "json st msg =
     \<lparr>status = st, message = msg, body_user = None, body_error = None,
      set_cookies = [], cleared_cookies = []\<rparr>"

definition cookie_opts :: "env \<Rightarrow> nat \<Rightarrow> cookie_options" where
  "cookie_opts e age =
     \<lparr>httpOnly = True, secure = (NODE_ENV e = ''production''),
      sameSite = ''strict'', maxAge = age\<rparr>"

section \<open>controllers/authenticate.controller\<close>

definition generateAccessToken :: "env \<Rightarrow> nat \<Rightarrow> string \<Rightarrow> token" where
  "generateAccessToken e now name =
     jwt_sign name (JWT_ACCESS_TOKEN_SECRET e) (JWT_ACCESS_TOKEN_EXPIRATION e) now"

text \<open>
  The SADD is issued without a callback and without \<open>await\<close>: its reply, error or
  not, is dropped, and the token is returned either way. The command goes out on the
  shared connection before the response is sent, and Redis serves a connection in order,
  so a command that succeeds is applied here at once.
\<close>

definition generateRefreshToken :: "env \<Rightarrow> nat \<Rightarrow> redis \<Rightarrow> string \<Rightarrow> token \<times> redis" where
  "generateRefreshToken e now r name =
     (let refreshToken =
            jwt_sign name (JWT_REFRESH_TOKEN_SECRET e) (JWT_REFRESH_TOKEN_EXPIRATION e) now
      in (refreshToken, snd (sadd r refreshToken)))"

text \<open>
  \<open>bcrypt.compare(password, hash)\<close>: bcryptjs rejects with \<open>Illegal arguments\<close> when
  the password is not a string; otherwise it answers whether the password matches the
  hash, which is what the parameter \<open>compare\<close> stands for. The stored hash is always a
  string.
\<close>

definition bcrypt_compare ::
  "(string \<Rightarrow> string \<Rightarrow> bool) \<Rightarrow> string option \<Rightarrow> string \<Rightarrow> failure + bool" where
  "bcrypt_compare compare password hash =
     (case password of
        None \<Rightarrow> Inl BcryptFailure
      | Some p \<Rightarrow> Inr (compare p hash))"

text \<open>
  \<open>login\<close>. A rejection of \<open>findOne\<close> or of \<open>bcrypt.compare\<close> lands in the
  \<open>catch\<close>; \<open>user && ...\<close> short-circuits, so bcrypt runs only when a document was
  found. The configuration is present, so \<open>jwt.sign\<close> does not throw.
\<close>

definition login ::
  "(string \<Rightarrow> string \<Rightarrow> bool) \<Rightarrow> env \<Rightarrow> nat \<Rightarrow> world \<Rightarrow> request \<Rightarrow> world \<times> response" where
  "login compare e now w req =
     (case findOne w (body_username req) of
        Inl err \<Rightarrow> (w, (json 500 ''Error logging in'')\<lparr>body_error := Some err\<rparr>)
      | Inr None \<Rightarrow> (w, json 401 ''Invalid credentials'')
      | Inr (Some u) \<Rightarrow>
          (case bcrypt_compare compare (body_password req) (u_password u) of
             Inl err \<Rightarrow> (w, (json 500 ''Error logging in'')\<lparr>body_error := Some err\<rparr>)
           | Inr matches \<Rightarrow>
               if matches
               then
                 (let accessToken = generateAccessToken e now (body_username req);
                      (refreshToken, r') =
                         generateRefreshToken e now (redisClient w) (body_username req)
                  in (w\<lparr>redisClient := r'\<rparr>,
                      (json 200 ''Logged in successfully'')
                        \<lparr>body_user := Some u,
                         set_cookies :=
                           [(''accessToken'', accessToken, cookie_opts e (15 * 60 * 1000)),
                            (''refreshToken'', refreshToken,
                               cookie_opts e (30 * 24 * 60 * 60 * 1000))]\<rparr>))
               else (w, json 401 ''Invalid credentials'')))"

definition refreshToken :: "env \<Rightarrow> nat \<Rightarrow> world \<Rightarrow> request \<Rightarrow> world \<times> response" where
  "refreshToken e now w req =
     (case cookies_refreshToken req of
        None \<Rightarrow> (w, json 401 ''Token is required'')
      | Some token \<Rightarrow>
          if falsy (Some token) then (w, json 401 ''Token is required'')
          else
            (let (reply, r') = sismember (redisClient w) token;
                 w' = w\<lparr>redisClient := r'\<rparr>
             in if reply \<noteq> Inr 1 then (w', json 403 ''Invalid refresh token'')
                else
                  (case jwt_verify token (JWT_REFRESH_TOKEN_SECRET e) now of
                     Inl err \<Rightarrow> (w', json 403 ''Token is invalid or expired'')
                   | Inr usr \<Rightarrow>
                       (let newAccessToken = generateAccessToken e now (username usr)
                        in (w',
                            (json 200 ''Access token refreshed'')
                              \<lparr>set_cookies :=
                                 [(''accessToken'', newAccessToken,
                                   cookie_opts e (15 * 60 * 1000))]\<rparr>)))))"

definition logout :: "world \<Rightarrow> request \<Rightarrow> world \<times> response" where
  "logout w req =
     (let token = cookies_refreshToken req;
          (reply, r') = srem (redisClient w) (toArg token);
          w' = w\<lparr>redisClient := r'\<rparr>
      in case reply of
           Inl err \<Rightarrow> (w', (json 500 ''Error logging out'')\<lparr>body_error := Some err\<rparr>)
         | Inr n \<Rightarrow>
             (w', (json 200 ''Logged out successfully'')
                    \<lparr>cleared_cookies := [''accessToken'', ''refreshToken'']\<rparr>))"

section \<open>middlewares/authenticate.middleware\<close>

datatype outcome = Responded response | Next request

definition authenticateJWT :: "env \<Rightarrow> nat \<Rightarrow> request \<Rightarrow> outcome" where
  "authenticateJWT e now req =
     (case cookies_accessToken req of
        None \<Rightarrow> Responded (json 401 ''Unauthorized'')
      | Some token \<Rightarrow>
          if \<not> falsy (Some token)
          then
            (case jwt_verify token (JWT_ACCESS_TOKEN_SECRET e) now of
               Inl err \<Rightarrow> Responded (json 403 ''Forbidden'')
             | Inr usr \<Rightarrow> Next (req\<lparr>user := Some usr\<rparr>))
          else Responded (json 401 ''Unauthorized''))"

section \<open>Reading a response\<close>

text \<open>The value a response sets for the cookie \<open>name\<close>, if it sets one.\<close>

definition cookie_value :: "string \<Rightarrow> response \<Rightarrow> token option" where
  "cookie_value name res = map_option fst (map_of (set_cookies res) name)"

text \<open>The body and cookies of a successful refresh and of a successful logout.\<close>

definition refreshed :: "env \<Rightarrow> token \<Rightarrow> response" where
  "refreshed e newAccessToken =
     (json 200 ''Access token refreshed'')
       \<lparr>set_cookies := [(''accessToken'', newAccessToken, cookie_opts e (15 * 60 * 1000))]\<rparr>"


text \<open>The response of a successful login for the document \<open>u\<close>.\<close>

definition logged_in :: "env \<Rightarrow> IUser \<Rightarrow> token \<Rightarrow> token \<Rightarrow> response" where
  "logged_in e u access refresh =
     (json 200 ''Logged in successfully'')
       \<lparr>body_user := Some u,
        set_cookies :=
          [(''accessToken'', access, cookie_opts e (15 * 60 * 1000)),
           (''refreshToken'', refresh, cookie_opts e (30 * 24 * 60 * 60 * 1000))]\<rparr>"

text \<open>The refresh token \<open>generateRefreshToken\<close> mints for \<open>name\<close> at second \<open>now\<close>.\<close>

definition minted_refresh :: "env \<Rightarrow> nat \<Rightarrow> string \<Rightarrow> token" where
  "minted_refresh e now name =
     jwt_sign name (JWT_REFRESH_TOKEN_SECRET e) (JWT_REFRESH_TOKEN_EXPIRATION e) now"

section \<open>A concrete deployment\<close>

definition env0 :: env where
  "env0 =
     \<lparr>JWT_ACCESS_TOKEN_SECRET = ''access-secret'', JWT_ACCESS_TOKEN_EXPIRATION = 900,
      JWT_REFRESH_TOKEN_SECRET = ''refresh-secret'', JWT_REFRESH_TOKEN_EXPIRATION = 2592000,
      NODE_ENV = ''production''\<rparr>"

definition alice :: IUser where
  "alice = \<lparr>u_username = ''alice'', u_password = ''hash:correct''\<rparr>"

text \<open>A stand-in for bcrypt on the concrete inputs: the hash names its password.\<close>

definition compare0 :: "string \<Rightarrow> string \<Rightarrow> bool" where
  "compare0 password hash = (hash = ''hash:'' @ password)"

definition redis0 :: "bool \<Rightarrow> token set \<Rightarrow> redis" where
  "redis0 b ts = \<lparr>up = b, refreshTokens = ts\<rparr>"

definition world0 :: "bool \<Rightarrow> token set \<Rightarrow> world" where
  "world0 b ts = \<lparr>mongo_up = True, User = [alice], redisClient = redis0 b ts\<rparr>"

definition req0 :: "string \<Rightarrow> string \<Rightarrow> token option \<Rightarrow> token option \<Rightarrow> request" where
  "req0 name pw at rt =
     \<lparr>body_username = name, body_password = Some pw, cookies_accessToken = at,
      cookies_refreshToken = rt, user = None\<rparr>"

text \<open>A login body that names a user and carries no password.\<close>

definition req_no_password :: "string \<Rightarrow> request" where
  "req_no_password name =
     \<lparr>body_username = name, body_password = None, cookies_accessToken = None,
      cookies_refreshToken = None, user = None\<rparr>"

text \<open>The same store with the user collection emptied and unreachable.\<close>

definition world1 :: "bool \<Rightarrow> token set \<Rightarrow> world" where
  "world1 b ts = \<lparr>mongo_up = False, User = [], redisClient = redis0 b ts\<rparr>"

text \<open>Alice's tokens as minted at second 1000.\<close>

definition alice_access :: token where
  "alice_access = generateAccessToken env0 1000 ''alice''"

definition alice_refresh :: token where
  "alice_refresh =
     jwt_sign ''alice'' (JWT_REFRESH_TOKEN_SECRET env0) (JWT_REFRESH_TOKEN_EXPIRATION env0) 1000"

section \<open>Shared facts about the store commands\<close>

lemma sismember_reply:
  "fst (sismember r t) = Inr 1 \<longleftrightarrow> up r \<and> t \<in> refreshTokens r"
  by (simp add: sismember_def)

lemma verified_not_falsy: "jwt_verify t secret now = Inr p \<Longrightarrow> \<not> falsy (Some t)"
  by (cases t) auto

section \<open>The four exits of refresh\<close>

lemma refreshToken_missing:
  "falsy (cookies_refreshToken req) \<Longrightarrow>
     refreshToken e now w req = (w, json 401 ''Token is required'')"
  by (cases "cookies_refreshToken req") (simp_all add: refreshToken_def)

lemma refreshToken_revoked:
  "cookies_refreshToken req = Some t \<Longrightarrow> \<not> falsy (Some t) \<Longrightarrow>
   fst (sismember (redisClient w) t) \<noteq> Inr 1 \<Longrightarrow>
     refreshToken e now w req = (w, json 403 ''Invalid refresh token'')"
  by (simp add: refreshToken_def sismember_def split: if_splits)

lemma refreshToken_invalid:
  "cookies_refreshToken req = Some t \<Longrightarrow> \<not> falsy (Some t) \<Longrightarrow>
   fst (sismember (redisClient w) t) = Inr 1 \<Longrightarrow>
   jwt_verify t (JWT_REFRESH_TOKEN_SECRET e) now = Inl err \<Longrightarrow>
     refreshToken e now w req = (w, json 403 ''Token is invalid or expired'')"
  by (simp add: refreshToken_def sismember_def split: if_splits)

lemma refreshToken_success:
  "cookies_refreshToken req = Some t \<Longrightarrow>
   fst (sismember (redisClient w) t) = Inr 1 \<Longrightarrow>
   jwt_verify t (JWT_REFRESH_TOKEN_SECRET e) now = Inr p \<Longrightarrow>
     refreshToken e now w req = (w, refreshed e (generateAccessToken e now (username p)))"
  by (frule verified_not_falsy)
     (simp add: refreshToken_def sismember_def refreshed_def split: if_splits)

lemma json_status: "status (json st msg) = st"
  by (simp add: json_def)

lemma refreshed_status: "status (refreshed e t) = 200"
  by (simp add: refreshed_def json_def)

lemma refreshToken_exits:
  "refreshToken e now w req = (w, json 401 ''Token is required'')
   \<or> refreshToken e now w req = (w, json 403 ''Invalid refresh token'')
   \<or> refreshToken e now w req = (w, json 403 ''Token is invalid or expired'')
   \<or> (\<exists>t p. cookies_refreshToken req = Some t
          \<and> fst (sismember (redisClient w) t) = Inr 1
          \<and> jwt_verify t (JWT_REFRESH_TOKEN_SECRET e) now = Inr p
          \<and> refreshToken e now w req
              = (w, refreshed e (generateAccessToken e now (username p))))"
proof (cases "falsy (cookies_refreshToken req)")
  case True
  then show ?thesis by (simp add: refreshToken_missing)
next
  case False
  then obtain t where t: "cookies_refreshToken req = Some t" "\<not> falsy (Some t)"
    by (cases "cookies_refreshToken req") auto
  show ?thesis
  proof (cases "fst (sismember (redisClient w) t) = Inr 1")
    case False
    with t show ?thesis by (simp add: refreshToken_revoked)
  next
    case yes: True
    show ?thesis
    proof (cases "jwt_verify t (JWT_REFRESH_TOKEN_SECRET e) now")
      case (Inl err)
      with t yes show ?thesis by (simp add: refreshToken_invalid)
    next
      case (Inr p)
      with t yes have "refreshToken e now w req
              = (w, refreshed e (generateAccessToken e now (username p)))"
        by (simp add: refreshToken_success)
      with t yes Inr show ?thesis by blast
    qed
  qed
qed

lemma json_cookies: "set_cookies (json st msg) = []" "cleared_cookies (json st msg) = []"
  by (simp_all add: json_def)

lemma refreshed_cookies:
  "set_cookies (refreshed e t) = [(''accessToken'', t, cookie_opts e (15 * 60 * 1000))]"
  "cleared_cookies (refreshed e t) = []"
  by (simp_all add: refreshed_def json_def)

lemma refreshToken_response_from_redis:
  "redisClient w1 = redisClient w2 \<Longrightarrow>
     snd (refreshToken e now w1 req) = snd (refreshToken e now w2 req)"
  by (cases "cookies_refreshToken req")
     (simp_all add: refreshToken_def sismember_def split: sum.splits)

section \<open>The two exits of logout\<close>


lemma logout_down:
  "\<not> up (redisClient w) \<Longrightarrow>
     logout w req = (w, (json 500 ''Error logging out'')\<lparr>body_error := Some RedisFailure\<rparr>)"
  by (simp add: logout_def srem_def)

section \<open>The accepted login\<close>

lemma generateRefreshToken_token:
  "fst (generateRefreshToken e now r name) = minted_refresh e now name"
  by (simp add: generateRefreshToken_def minted_refresh_def Let_def)

lemma generateRefreshToken_store:
  "snd (generateRefreshToken e now r name) =
     (if up r then r\<lparr>refreshTokens := insert (minted_refresh e now name) (refreshTokens r)\<rparr>
      else r)"
  by (simp add: generateRefreshToken_def minted_refresh_def sadd_def Let_def)

lemma login_accepted:
  assumes "findOne w (body_username req) = Inr (Some u)"
      and "bcrypt_compare compare (body_password req) (u_password u) = Inr True"
  shows "login compare e now w req =
           (w\<lparr>redisClient := snd (generateRefreshToken e now (redisClient w) (body_username req))\<rparr>,
            logged_in e u (generateAccessToken e now (body_username req))
              (minted_refresh e now (body_username req)))"
  using assms generateRefreshToken_token [of e now "redisClient w" "body_username req"]
  by (auto simp add: login_def logged_in_def Let_def split: prod.splits)

lemma logged_in_reads:
  "status (logged_in e u a r) = 200"
  "cookie_value ''accessToken'' (logged_in e u a r) = Some a"
  "cookie_value ''refreshToken'' (logged_in e u a r) = Some r"
  by (simp_all add: logged_in_def json_def cookie_value_def)



section \<open>Facts about the concrete deployment\<close>

lemma world0_findOne:
  "findOne (world0 b ts) ''alice'' = Inr (Some alice)"
  "findOne (world0 b ts) ''bob'' = Inr None"
  by (simp_all add: findOne_def world0_def alice_def)

lemma alice_refresh_verifies:
  "now < 2593000 \<Longrightarrow>
   jwt_verify alice_refresh (JWT_REFRESH_TOKEN_SECRET env0) now
     = Inr \<lparr>username = ''alice'', iat = 1000, exp = 2593000\<rparr>"
  by (simp add: alice_refresh_def jwt_sign_def env0_def)

lemma alice_refresh_not_falsy: "\<not> falsy (Some alice_refresh)"
  by (simp add: alice_refresh_def jwt_sign_def)

lemma world0_redis:
  "up (redisClient (world0 b ts)) = b" "refreshTokens (redisClient (world0 b ts)) = ts"
  by (simp_all add: world0_def redis0_def)

lemma req0_cookies:
  "cookies_refreshToken (req0 n p a r) = r" "cookies_accessToken (req0 n p a r) = a"
  "body_username (req0 n p a r) = n" "body_password (req0 n p a r) = Some p"
  by (simp_all add: req0_def)

section \<open>The protected-resource check\<close>

text \<open>
  Claim C8. \<open>authenticateJWT\<close> decides from the access-token cookie, the access secret
  and the clock alone; the middleware has no handle on the Redis client, so its model
  takes no store. A missing (or empty) cookie is answered 401 \<open>Unauthorized\<close>; a
  cookie that fails \<open>jwt.verify\<close> under the access secret, for a bad signature or for
  expiry, is answered 403 \<open>Forbidden\<close>; otherwise the decoded payload is stored in
  \<open>req.user\<close> and the request is passed on to the next handler.
\<close>

theorem authenticateJWT_outcome:
  "(falsy (cookies_accessToken req) \<longrightarrow>
      authenticateJWT e now req = Responded (json 401 ''Unauthorized''))
   \<and> (\<forall>t err. cookies_accessToken req = Some t \<and> \<not> falsy (Some t)
          \<and> jwt_verify t (JWT_ACCESS_TOKEN_SECRET e) now = Inl err \<longrightarrow>
        authenticateJWT e now req = Responded (json 403 ''Forbidden''))
   \<and> (\<forall>t p. cookies_accessToken req = Some t
          \<and> jwt_verify t (JWT_ACCESS_TOKEN_SECRET e) now = Inr p \<longrightarrow>
        authenticateJWT e now req = Next (req\<lparr>user := Some p\<rparr>))"
proof (intro conjI allI impI)
  assume "falsy (cookies_accessToken req)"
  then show "authenticateJWT e now req = Responded (json 401 ''Unauthorized'')"
    by (cases "cookies_accessToken req") (simp_all add: authenticateJWT_def)
next
  fix t err
  assume "cookies_accessToken req = Some t \<and> \<not> falsy (Some t)
          \<and> jwt_verify t (JWT_ACCESS_TOKEN_SECRET e) now = Inl err"
  then show "authenticateJWT e now req = Responded (json 403 ''Forbidden'')"
    by (simp add: authenticateJWT_def)
next
  fix t p
  assume h: "cookies_accessToken req = Some t
          \<and> jwt_verify t (JWT_ACCESS_TOKEN_SECRET e) now = Inr p"
  then have "\<not> falsy (Some t)" by (blast dest: verified_not_falsy)
  with h show "authenticateJWT e now req = Next (req\<lparr>user := Some p\<rparr>)"
    by (simp add: authenticateJWT_def)
qed

theorem authenticateJWT_outcome_witness:
  "authenticateJWT env0 1000 (req0 [] [] None None) = Responded (json 401 ''Unauthorized'')
   \<and> authenticateJWT env0 1900 (req0 [] [] (Some alice_access) None)
       = Responded (json 403 ''Forbidden'')
   \<and> authenticateJWT env0 1899 (req0 [] [] (Some alice_access) None)
       = Next ((req0 [] [] (Some alice_access) None)
                 \<lparr>user := Some \<lparr>username = ''alice'', iat = 1000, exp = 1900\<rparr>\<rparr>)"
proof -
  let ?bare = "req0 [] [] None None" and ?req = "req0 [] [] (Some alice_access) None"
  have f: "falsy (cookies_accessToken ?bare)"
    by (simp add: req0_def)
  have v1: "jwt_verify alice_access (JWT_ACCESS_TOKEN_SECRET env0) 1900 = Inl TokenExpiredError"
    by (simp add: alice_access_def generateAccessToken_def jwt_sign_def env0_def)
  have v2: "jwt_verify alice_access (JWT_ACCESS_TOKEN_SECRET env0) 1899
              = Inr \<lparr>username = ''alice'', iat = 1000, exp = 1900\<rparr>"
    by (simp add: alice_access_def generateAccessToken_def jwt_sign_def env0_def)
  have nf: "\<not> falsy (Some alice_access)"
    by (simp add: alice_access_def generateAccessToken_def jwt_sign_def)
  have c: "cookies_accessToken ?req = Some alice_access"
    by (simp add: req0_def)
  from authenticateJWT_outcome [of ?bare env0 1000] f
  have a: "authenticateJWT env0 1000 ?bare = Responded (json 401 ''Unauthorized'')"
    by blast
  from authenticateJWT_outcome [of ?req env0 1900] c nf v1
  have b: "authenticateJWT env0 1900 ?req = Responded (json 403 ''Forbidden'')"
    by blast
  from authenticateJWT_outcome [of ?req env0 1899] c v2
  have d: "authenticateJWT env0 1899 ?req
             = Next (?req\<lparr>user := Some \<lparr>username = ''alice'', iat = 1000, exp = 1900\<rparr>\<rparr>)"
    by blast
  from a b d show ?thesis by blast
qed

section \<open>The token issuer\<close>

text \<open>
  Claim C6. Round trip: an access token minted for \<open>name\<close> at second \<open>now\<close> and
  verified under the access secret before its expiry yields a payload whose
  \<open>username\<close> is \<open>name\<close>; under the refresh secret the same token fails
  verification, at any time. The two secrets are configuration: the round trip is stated
  for a deployment that keeps them distinct, as the design demands.
\<close>

theorem access_token_round_trip:
  assumes "now' < now + JWT_ACCESS_TOKEN_EXPIRATION e"
      and "JWT_ACCESS_TOKEN_SECRET e \<noteq> JWT_REFRESH_TOKEN_SECRET e"
  shows "(\<exists>p. jwt_verify (generateAccessToken e now name) (JWT_ACCESS_TOKEN_SECRET e) now' = Inr p
              \<and> username p = name)
         \<and> (\<forall>t. jwt_verify (generateAccessToken e now name) (JWT_REFRESH_TOKEN_SECRET e) t
                = Inl JsonWebTokenError)"
  using assms by (simp add: generateAccessToken_def jwt_sign_def)

theorem access_token_round_trip_witness:
  "(1899::nat) < 1000 + JWT_ACCESS_TOKEN_EXPIRATION env0
   \<and> JWT_ACCESS_TOKEN_SECRET env0 \<noteq> JWT_REFRESH_TOKEN_SECRET env0
   \<and> (\<exists>p. jwt_verify (generateAccessToken env0 1000 ''alice'') (JWT_ACCESS_TOKEN_SECRET env0) 1899
              = Inr p \<and> username p = ''alice'')
   \<and> jwt_verify (generateAccessToken env0 1000 ''alice'') (JWT_REFRESH_TOKEN_SECRET env0) 1899
       = Inl JsonWebTokenError"
proof -
  have h1: "(1899::nat) < 1000 + JWT_ACCESS_TOKEN_EXPIRATION env0"
    by (simp add: env0_def)
  have h2: "JWT_ACCESS_TOKEN_SECRET env0 \<noteq> JWT_REFRESH_TOKEN_SECRET env0"
    by (simp add: env0_def)
  from access_token_round_trip [OF h1 h2, of "''alice''"] h1 h2 show ?thesis
    by blast
qed

section \<open>Refresh\<close>

text \<open>
  Claim C1. \<open>refreshToken\<close> answers 200 with a new access-token cookie exactly when
  the refresh cookie is present and non-empty, the membership check (SISMEMBER on
  \<open>"refreshTokens"\<close>) replies 1, and \<open>jwt.verify\<close> under the refresh secret accepts
  the token at the current time. Otherwise the answer is 401 \<open>Token is required\<close>
  when no token was supplied, 403 \<open>Invalid refresh token\<close> when the membership check
  fails, whatever the signature check would say (the membership check comes first), and
  403 \<open>Token is invalid or expired\<close> when the membership check passes and the
  signature or expiry check fails. The membership check is how the handler sees the
  ActiveRefreshSet: it replies 1 exactly when the store answers and the token is a
  current member of the set.
\<close>

theorem refresh_three_checks:
  "(status (snd (refreshToken e now w req)) = 200 \<longleftrightarrow>
      (\<exists>t. cookies_refreshToken req = Some t \<and> \<not> falsy (Some t)
           \<and> fst (sismember (redisClient w) t) = Inr 1
           \<and> (\<exists>p. jwt_verify t (JWT_REFRESH_TOKEN_SECRET e) now = Inr p)))
   \<and> (\<forall>t p. cookies_refreshToken req = Some t
          \<and> fst (sismember (redisClient w) t) = Inr 1
          \<and> jwt_verify t (JWT_REFRESH_TOKEN_SECRET e) now = Inr p \<longrightarrow>
        snd (refreshToken e now w req) = refreshed e (generateAccessToken e now (username p)))
   \<and> (falsy (cookies_refreshToken req) \<longrightarrow>
        snd (refreshToken e now w req) = json 401 ''Token is required'')
   \<and> (\<forall>t. cookies_refreshToken req = Some t \<and> \<not> falsy (Some t)
          \<and> fst (sismember (redisClient w) t) \<noteq> Inr 1 \<longrightarrow>
        snd (refreshToken e now w req) = json 403 ''Invalid refresh token'')
   \<and> (\<forall>t err. cookies_refreshToken req = Some t \<and> \<not> falsy (Some t)
          \<and> fst (sismember (redisClient w) t) = Inr 1
          \<and> jwt_verify t (JWT_REFRESH_TOKEN_SECRET e) now = Inl err \<longrightarrow>
        snd (refreshToken e now w req) = json 403 ''Token is invalid or expired'')
   \<and> (\<forall>t. fst (sismember (redisClient w) t) = Inr 1 \<longleftrightarrow>
            up (redisClient w) \<and> t \<in> refreshTokens (redisClient w))"
proof -
  let ?res = "snd (refreshToken e now w req)"
  have ok: "?res = refreshed e (generateAccessToken e now (username p))"
    if "cookies_refreshToken req = Some t" "fst (sismember (redisClient w) t) = Inr 1"
       "jwt_verify t (JWT_REFRESH_TOKEN_SECRET e) now = Inr p" for t p
    using that by (simp add: refreshToken_success)
  have missing: "?res = json 401 ''Token is required''" if "falsy (cookies_refreshToken req)"
    using that by (simp add: refreshToken_missing)
  have revoked: "?res = json 403 ''Invalid refresh token''"
    if "cookies_refreshToken req = Some t" "\<not> falsy (Some t)"
       "fst (sismember (redisClient w) t) \<noteq> Inr 1" for t
    using that by (simp add: refreshToken_revoked)
  have invalid: "?res = json 403 ''Token is invalid or expired''"
    if "cookies_refreshToken req = Some t" "\<not> falsy (Some t)"
       "fst (sismember (redisClient w) t) = Inr 1"
       "jwt_verify t (JWT_REFRESH_TOKEN_SECRET e) now = Inl err" for t err
    using that by (simp add: refreshToken_invalid)
  have iff: "status ?res = 200 \<longleftrightarrow>
      (\<exists>t. cookies_refreshToken req = Some t \<and> \<not> falsy (Some t)
           \<and> fst (sismember (redisClient w) t) = Inr 1
           \<and> (\<exists>p. jwt_verify t (JWT_REFRESH_TOKEN_SECRET e) now = Inr p))"
  proof (cases "falsy (cookies_refreshToken req)")
    case True
    then have "status ?res = 401" by (simp add: missing json_status)
    moreover from True have "\<not> (\<exists>t. cookies_refreshToken req = Some t \<and> \<not> falsy (Some t))"
      by auto
    ultimately show ?thesis by auto
  next
    case False
    then obtain t where t: "cookies_refreshToken req = Some t" "\<not> falsy (Some t)"
      by (cases "cookies_refreshToken req") auto
    show ?thesis
    proof (cases "fst (sismember (redisClient w) t) = Inr 1")
      case no: False
      with t have "status ?res = 403" by (simp add: revoked json_status)
      with t no show ?thesis by auto
    next
      case yes: True
      show ?thesis
      proof (cases "jwt_verify t (JWT_REFRESH_TOKEN_SECRET e) now")
        case (Inl err)
        with t yes have "status ?res = 403" by (simp add: invalid json_status)
        with t Inl show ?thesis by auto
      next
        case (Inr p)
        with t yes have "status ?res = 200" by (simp add: ok refreshed_status)
        with t yes Inr show ?thesis by auto
      qed
    qed
  qed
  have bridge: "fst (sismember (redisClient w) t) = Inr 1 \<longleftrightarrow>
                  up (redisClient w) \<and> t \<in> refreshTokens (redisClient w)" for t
    by (rule sismember_reply)
  from iff ok missing revoked invalid bridge show ?thesis by blast
qed

theorem refresh_three_checks_witness:
  "snd (refreshToken env0 2000 (world0 True {alice_refresh}) (req0 [] [] None (Some alice_refresh)))
     = refreshed env0 (generateAccessToken env0 2000 ''alice'')
   \<and> status (snd (refreshToken env0 2000 (world0 True {alice_refresh})
                    (req0 [] [] None (Some alice_refresh)))) = 200
   \<and> snd (refreshToken env0 2000 (world0 True {alice_refresh}) (req0 [] [] None None))
     = json 401 ''Token is required''
   \<and> snd (refreshToken env0 2000 (world0 True {}) (req0 [] [] None (Some alice_refresh)))
     = json 403 ''Invalid refresh token''
   \<and> snd (refreshToken env0 2593000 (world0 True {alice_refresh})
            (req0 [] [] None (Some alice_refresh)))
     = json 403 ''Token is invalid or expired''"
proof -
  let ?req = "req0 [] [] None (Some alice_refresh)"
  let ?w = "world0 True {alice_refresh}"
  have c: "cookies_refreshToken ?req = Some alice_refresh"
    by (simp add: req0_cookies)
  have m: "fst (sismember (redisClient ?w) alice_refresh) = Inr 1"
    by (simp add: sismember_def world0_redis)
  have nm: "fst (sismember (redisClient (world0 True {})) alice_refresh) \<noteq> Inr 1"
    by (simp add: sismember_def world0_redis)
  have v: "jwt_verify alice_refresh (JWT_REFRESH_TOKEN_SECRET env0) 2000
             = Inr \<lparr>username = ''alice'', iat = 1000, exp = 2593000\<rparr>"
    by (simp add: alice_refresh_verifies)
  have x: "jwt_verify alice_refresh (JWT_REFRESH_TOKEN_SECRET env0) 2593000
             = Inl TokenExpiredError"
    by (simp add: alice_refresh_def jwt_sign_def env0_def)
  have f: "falsy (cookies_refreshToken (req0 [] [] None None))"
    by (simp add: req0_cookies)
  note nf = alice_refresh_not_falsy
  from refresh_three_checks [of env0 2000 ?w ?req] c m v
  have a: "snd (refreshToken env0 2000 ?w ?req)
             = refreshed env0 (generateAccessToken env0 2000
                 (username \<lparr>username = ''alice'', iat = 1000, exp = 2593000\<rparr>))"
    by blast
  from refresh_three_checks [of env0 2000 ?w ?req] c m v nf
  have a': "status (snd (refreshToken env0 2000 ?w ?req)) = 200"
    by blast
  from refresh_three_checks [of env0 2000 ?w "req0 [] [] None None"] f
  have b: "snd (refreshToken env0 2000 ?w (req0 [] [] None None)) = json 401 ''Token is required''"
    by blast
  from refresh_three_checks [of env0 2000 "world0 True {}" ?req] c nf nm
  have d: "snd (refreshToken env0 2000 (world0 True {}) ?req) = json 403 ''Invalid refresh token''"
    by blast
  from refresh_three_checks [of env0 2593000 ?w ?req] c nf m x
  have g: "snd (refreshToken env0 2593000 ?w ?req) = json 403 ''Token is invalid or expired''"
    by blast
  from a a' b d g show ?thesis by simp
qed

text \<open>
  Claim C3. No refresh call, successful or not, changes the server state: the set
  \<open>"refreshTokens"\<close> (and everything else) is as before, so a presented token that
  was a member remains one and none is added or removed. No refresh response sets or
  clears the \<open>refreshToken\<close> cookie, so the refresh token is never rotated or
  replaced, and a successful refresh sets exactly one cookie, \<open>accessToken\<close>.
\<close>

theorem refresh_frame:
  "fst (refreshToken e now w req) = w
   \<and> cookie_value ''refreshToken'' (snd (refreshToken e now w req)) = None
   \<and> cleared_cookies (snd (refreshToken e now w req)) = []
   \<and> (status (snd (refreshToken e now w req)) = 200 \<longrightarrow>
        map fst (set_cookies (snd (refreshToken e now w req))) = [''accessToken''])"
proof -
  consider (fail) st msg where "refreshToken e now w req = (w, json st msg)" "st \<noteq> 200"
    | (ok) t where "refreshToken e now w req = (w, refreshed e t)"
    using refreshToken_exits [of e now w req] by force
  then show ?thesis
  proof cases
    case fail
    then show ?thesis by (simp add: json_cookies json_status cookie_value_def)
  next
    case ok
    then show ?thesis by (simp add: refreshed_cookies cookie_value_def)
  qed
qed

theorem refresh_frame_witness:
  "status (snd (refreshToken env0 2000 (world0 True {alice_refresh})
                  (req0 [] [] None (Some alice_refresh)))) = 200
   \<and> map fst (set_cookies (snd (refreshToken env0 2000 (world0 True {alice_refresh})
                  (req0 [] [] None (Some alice_refresh))))) = [''accessToken'']
   \<and> fst (refreshToken env0 2000 (world0 True {alice_refresh})
                  (req0 [] [] None (Some alice_refresh))) = world0 True {alice_refresh}"
proof -
  let ?req = "req0 [] [] None (Some alice_refresh)"
  let ?w = "world0 True {alice_refresh}"
  have "refreshToken env0 2000 ?w ?req
          = (?w, refreshed env0 (generateAccessToken env0 2000
                 (username \<lparr>username = ''alice'', iat = 1000, exp = 2593000\<rparr>)))"
    by (rule refreshToken_success [where t = alice_refresh])
       (simp_all add: req0_cookies sismember_def world0_redis alice_refresh_verifies)
  then have s: "status (snd (refreshToken env0 2000 ?w ?req)) = 200"
    by (simp add: refreshed_status)
  with refresh_frame [of env0 2000 ?w ?req] show ?thesis by blast
qed

text \<open>
  Claim C10. \<open>refreshToken\<close> never reads the user collection: two server states
  with the same Redis contents give the same response, whatever their user collections
  hold (a deleted user record, an unreachable database). For a refresh token that is in
  the active set, valid and unexpired, that response is the success response in both
  states, and the new access token is signed for the \<open>username\<close> found in the
  refresh token's payload.
\<close>

theorem refresh_ignores_credential_store:
  assumes "redisClient w1 = redisClient w2"
  shows "snd (refreshToken e now w1 req) = snd (refreshToken e now w2 req)
         \<and> (\<forall>t p. cookies_refreshToken req = Some t
                \<and> up (redisClient w1) \<and> t \<in> refreshTokens (redisClient w1)
                \<and> jwt_verify t (JWT_REFRESH_TOKEN_SECRET e) now = Inr p \<longrightarrow>
              snd (refreshToken e now w1 req) = refreshed e (generateAccessToken e now (username p))
              \<and> snd (refreshToken e now w2 req) = refreshed e (generateAccessToken e now (username p))
              \<and> cookie_value ''accessToken'' (snd (refreshToken e now w2 req))
                  = Some (jwt_sign (username p) (JWT_ACCESS_TOKEN_SECRET e)
                            (JWT_ACCESS_TOKEN_EXPIRATION e) now))"
proof (intro conjI allI impI)
  show same: "snd (refreshToken e now w1 req) = snd (refreshToken e now w2 req)"
    using assms by (rule refreshToken_response_from_redis)
  fix t p
  assume h: "cookies_refreshToken req = Some t
             \<and> up (redisClient w1) \<and> t \<in> refreshTokens (redisClient w1)
             \<and> jwt_verify t (JWT_REFRESH_TOKEN_SECRET e) now = Inr p"
  then have "fst (sismember (redisClient w1) t) = Inr 1"
    using sismember_reply [of "redisClient w1" t] by blast
  with h have "refreshToken e now w1 req
                 = (w1, refreshed e (generateAccessToken e now (username p)))"
    by (simp add: refreshToken_success)
  then show r1: "snd (refreshToken e now w1 req)
                   = refreshed e (generateAccessToken e now (username p))"
    by simp
  with same show r2: "snd (refreshToken e now w2 req)
                        = refreshed e (generateAccessToken e now (username p))"
    by simp
  then show "cookie_value ''accessToken'' (snd (refreshToken e now w2 req))
               = Some (jwt_sign (username p) (JWT_ACCESS_TOKEN_SECRET e)
                         (JWT_ACCESS_TOKEN_EXPIRATION e) now)"
    by (simp add: cookie_value_def refreshed_cookies generateAccessToken_def)
qed

theorem refresh_ignores_credential_store_witness:
  "redisClient (world0 True {alice_refresh}) = redisClient (world1 True {alice_refresh})
   \<and> User (world1 True {alice_refresh}) = []
   \<and> snd (refreshToken env0 2000 (world0 True {alice_refresh})
            (req0 [] [] None (Some alice_refresh)))
       = refreshed env0 (generateAccessToken env0 2000 ''alice'')
   \<and> snd (refreshToken env0 2000 (world1 True {alice_refresh})
            (req0 [] [] None (Some alice_refresh)))
       = refreshed env0 (generateAccessToken env0 2000 ''alice'')"
proof -
  let ?req = "req0 [] [] None (Some alice_refresh)"
  have r: "redisClient (world0 True {alice_refresh}) = redisClient (world1 True {alice_refresh})"
    by (simp add: world0_def world1_def)
  have u: "User (world1 True {alice_refresh}) = []"
    by (simp add: world1_def)
  have h: "cookies_refreshToken ?req = Some alice_refresh
           \<and> up (redisClient (world0 True {alice_refresh}))
           \<and> alice_refresh \<in> refreshTokens (redisClient (world0 True {alice_refresh}))
           \<and> jwt_verify alice_refresh (JWT_REFRESH_TOKEN_SECRET env0) 2000
               = Inr \<lparr>username = ''alice'', iat = 1000, exp = 2593000\<rparr>"
    by (simp add: req0_cookies world0_redis alice_refresh_verifies)
  from refresh_ignores_credential_store [OF r, of env0 2000 ?req] h
  have "snd (refreshToken env0 2000 (world0 True {alice_refresh}) ?req)
          = refreshed env0 (generateAccessToken env0 2000
              (username \<lparr>username = ''alice'', iat = 1000, exp = 2593000\<rparr>))
        \<and> snd (refreshToken env0 2000 (world1 True {alice_refresh}) ?req)
          = refreshed env0 (generateAccessToken env0 2000
              (username \<lparr>username = ''alice'', iat = 1000, exp = 2593000\<rparr>))"
    by blast
  with r u show ?thesis by simp
qed

section \<open>Login\<close>

text \<open>
  When the body carries a string password, a login for a username that is not in the
  user collection and a login for an existing user whose password does not match the
  stored hash get the same answer, 401 with the message \<open>Invalid credentials\<close> and no
  cookie, and neither changes the server state.
\<close>

theorem login_failures_indistinguishable:
  assumes "findOne wa (body_username ra) = Inr None"
      and "findOne wb (body_username rb) = Inr (Some u)"
      and "bcrypt_compare compare (body_password rb) (u_password u) = Inr False"
  shows "login compare ea na wa ra = (wa, json 401 ''Invalid credentials'')
         \<and> login compare eb nb wb rb = (wb, json 401 ''Invalid credentials'')
         \<and> snd (login compare ea na wa ra) = snd (login compare eb nb wb rb)"
  using assms by (simp add: login_def)

theorem login_failures_indistinguishable_witness:
  "findOne (world0 True {}) (body_username (req0 ''bob'' ''correct'' None None)) = Inr None
   \<and> findOne (world0 True {}) (body_username (req0 ''alice'' ''wrong'' None None)) = Inr (Some alice)
   \<and> bcrypt_compare compare0 (body_password (req0 ''alice'' ''wrong'' None None)) (u_password alice) = Inr False
   \<and> snd (login compare0 env0 1000 (world0 True {}) (req0 ''bob'' ''correct'' None None))
       = json 401 ''Invalid credentials''
   \<and> snd (login compare0 env0 1000 (world0 True {}) (req0 ''alice'' ''wrong'' None None))
       = json 401 ''Invalid credentials''"
proof -
  have a: "findOne (world0 True {}) (body_username (req0 ''bob'' ''correct'' None None)) = Inr None"
    by (simp add: req0_cookies world0_findOne)
  have b: "findOne (world0 True {}) (body_username (req0 ''alice'' ''wrong'' None None))
             = Inr (Some alice)"
    by (simp add: req0_cookies world0_findOne)
  have c: "bcrypt_compare compare0 (body_password (req0 ''alice'' ''wrong'' None None)) (u_password alice) = Inr False"
    by (simp add: req0_cookies bcrypt_compare_def compare0_def alice_def)
  from login_failures_indistinguishable
         [where compare = compare0 and ea = env0 and na = 1000 and eb = env0 and nb = 1000, OF a b c]
       a b c
  show ?thesis by simp
qed

text \<open>
  Claim C7. Failed logins are not indistinguishable for every body the handler can
  receive. bcrypt runs only when the user exists, and it rejects a password that is not
  a string; the rejection lands in the \<open>catch\<close>. A body that names a user and carries
  no password is therefore answered 500 \<open>Error logging in\<close> when the user exists and
  401 \<open>Invalid credentials\<close> when it does not, which tells the caller whether the
  account exists.
\<close>

theorem login_without_password_reveals_user:
  "login compare0 env0 1000 (world0 True {}) (req_no_password ''alice'')
     = (world0 True {}, (json 500 ''Error logging in'')\<lparr>body_error := Some BcryptFailure\<rparr>)
   \<and> login compare0 env0 1000 (world0 True {}) (req_no_password ''bob'')
     = (world0 True {}, json 401 ''Invalid credentials'')
   \<and> status (snd (login compare0 env0 1000 (world0 True {}) (req_no_password ''alice''))) = 500
   \<and> status (snd (login compare0 env0 1000 (world0 True {}) (req_no_password ''bob''))) = 401"
proof -
  have a: "findOne (world0 True {}) (body_username (req_no_password ''alice'')) = Inr (Some alice)"
    by (simp add: req_no_password_def world0_findOne)
  have b: "findOne (world0 True {}) (body_username (req_no_password ''bob'')) = Inr None"
    by (simp add: req_no_password_def world0_findOne)
  have r: "bcrypt_compare compare0 (body_password (req_no_password ''alice'')) (u_password alice)
             = Inl BcryptFailure"
    by (simp add: req_no_password_def bcrypt_compare_def)
  from a r have x: "login compare0 env0 1000 (world0 True {}) (req_no_password ''alice'')
     = (world0 True {}, (json 500 ''Error logging in'')\<lparr>body_error := Some BcryptFailure\<rparr>)"
    by (simp add: login_def)
  from b have y: "login compare0 env0 1000 (world0 True {}) (req_no_password ''bob'')
     = (world0 True {}, json 401 ''Invalid credentials'')"
    by (simp add: login_def)
  from x y show ?thesis by (simp add: json_def)
qed

text \<open>
  When \<open>login\<close> accepts a username and password and the store takes the SADD that
  \<open>generateRefreshToken\<close> issues, the refresh token set in the response is a member of
  \<open>"refreshTokens"\<close> in the state the call leaves.
\<close>

theorem login_activates_refresh_token:
  assumes "findOne w (body_username req) = Inr (Some u)"
      and "bcrypt_compare compare (body_password req) (u_password u) = Inr True"
      and "up (redisClient w)"
  shows "status (snd (login compare e now w req)) = 200
         \<and> cookie_value ''refreshToken'' (snd (login compare e now w req))
             = Some (minted_refresh e now (body_username req))
         \<and> minted_refresh e now (body_username req)
             \<in> refreshTokens (redisClient (fst (login compare e now w req)))"
proof -
  from assms(1,2) have l: "login compare e now w req =
           (w\<lparr>redisClient := snd (generateRefreshToken e now (redisClient w) (body_username req))\<rparr>,
            logged_in e u (generateAccessToken e now (body_username req))
              (minted_refresh e now (body_username req)))"
    by (rule login_accepted [where compare = compare])
  from assms(3) have "minted_refresh e now (body_username req)
      \<in> refreshTokens (snd (generateRefreshToken e now (redisClient w) (body_username req)))"
    by (simp add: generateRefreshToken_store)
  with l show ?thesis by (simp add: logged_in_reads)
qed

theorem login_activates_refresh_token_witness:
  "findOne (world0 True {}) (body_username (req0 ''alice'' ''correct'' None None)) = Inr (Some alice)
   \<and> bcrypt_compare compare0 (body_password (req0 ''alice'' ''correct'' None None)) (u_password alice) = Inr True
   \<and> up (redisClient (world0 True {}))
   \<and> cookie_value ''refreshToken''
        (snd (login compare0 env0 1000 (world0 True {}) (req0 ''alice'' ''correct'' None None)))
       = Some alice_refresh
   \<and> alice_refresh \<in> refreshTokens (redisClient
        (fst (login compare0 env0 1000 (world0 True {}) (req0 ''alice'' ''correct'' None None))))"
proof -
  let ?req = "req0 ''alice'' ''correct'' None None"
  have a: "findOne (world0 True {}) (body_username ?req) = Inr (Some alice)"
    by (simp add: req0_cookies world0_findOne)
  have b: "bcrypt_compare compare0 (body_password ?req) (u_password alice) = Inr True"
    by (simp add: req0_cookies bcrypt_compare_def compare0_def alice_def)
  have c: "up (redisClient (world0 True {}))"
    by (simp add: world0_redis)
  have m: "minted_refresh env0 1000 (body_username ?req) = alice_refresh"
    by (simp add: minted_refresh_def alice_refresh_def req0_cookies)
  from login_activates_refresh_token [where compare = compare0 and e = env0 and now = 1000, OF a b c]
       a b c m
  show ?thesis by simp
qed

text \<open>
  Claim C4. An accepted login does not always leave its refresh token in the set. The
  handler issues the SADD and never reads its outcome, where \<open>logout\<close> answers 500 on
  a store error: with Redis unreachable Alice's login is still answered 200 and hands
  out a refresh token that is not a member of \<open>"refreshTokens"\<close> after the call.
\<close>

theorem login_store_down_unactivated:
  "findOne (world0 False {}) (body_username (req0 ''alice'' ''correct'' None None)) = Inr (Some alice)
   \<and> bcrypt_compare compare0 (body_password (req0 ''alice'' ''correct'' None None)) (u_password alice) = Inr True
   \<and> status (snd (login compare0 env0 1000 (world0 False {}) (req0 ''alice'' ''correct'' None None)))
       = 200
   \<and> cookie_value ''refreshToken''
        (snd (login compare0 env0 1000 (world0 False {}) (req0 ''alice'' ''correct'' None None)))
       = Some alice_refresh
   \<and> alice_refresh \<notin> refreshTokens (redisClient
        (fst (login compare0 env0 1000 (world0 False {}) (req0 ''alice'' ''correct'' None None))))"
proof -
  let ?req = "req0 ''alice'' ''correct'' None None"
  have a: "findOne (world0 False {}) (body_username ?req) = Inr (Some alice)"
    by (simp add: req0_cookies world0_findOne)
  have b: "bcrypt_compare compare0 (body_password ?req) (u_password alice) = Inr True"
    by (simp add: req0_cookies bcrypt_compare_def compare0_def alice_def)
  have m: "minted_refresh env0 1000 (body_username ?req) = alice_refresh"
    by (simp add: minted_refresh_def alice_refresh_def req0_cookies)
  have "login compare0 env0 1000 (world0 False {}) ?req =
          ((world0 False {})\<lparr>redisClient :=
              snd (generateRefreshToken env0 1000 (redisClient (world0 False {})) (body_username ?req))\<rparr>,
           logged_in env0 alice (generateAccessToken env0 1000 (body_username ?req))
              (minted_refresh env0 1000 (body_username ?req)))"
    using a b by (rule login_accepted [where compare = compare0])
  with a b m show ?thesis
    by (simp add: logged_in_reads generateRefreshToken_store world0_redis)
qed



section \<open>Logout\<close>



section \<open>An unreachable store\<close>

text \<open>
  Claim C2. With Redis unreachable, \<open>logout\<close> answers 500 \<open>Error logging out\<close>,
  but \<open>refreshToken\<close> answers 403 \<open>Invalid refresh token\<close> for a token that is
  valid and in the set: the callback treats \<open>err\<close> like a reply other than 1, so the
  response is the one a revoked token gets from a reachable store, and never the 500 the
  handler's own API documentation lists.
\<close>

theorem refresh_store_error_answers_revoked:
  "snd (refreshToken env0 2000 (world0 False {alice_refresh}) (req0 [] [] None (Some alice_refresh)))
     = json 403 ''Invalid refresh token''
   \<and> snd (refreshToken env0 2000 (world0 True {}) (req0 [] [] None (Some alice_refresh)))
     = json 403 ''Invalid refresh token''
   \<and> snd (refreshToken env0 2000 (world0 True {alice_refresh}) (req0 [] [] None (Some alice_refresh)))
     = refreshed env0 (generateAccessToken env0 2000 ''alice'')
   \<and> snd (logout (world0 False {alice_refresh}) (req0 [] [] None (Some alice_refresh)))
     = (json 500 ''Error logging out'')\<lparr>body_error := Some RedisFailure\<rparr>"
proof -
  let ?req = "req0 [] [] None (Some alice_refresh)"
  have c: "cookies_refreshToken ?req = Some alice_refresh"
    by (simp add: req0_cookies)
  have "refreshToken env0 2000 (world0 False {alice_refresh}) ?req
          = (world0 False {alice_refresh}, json 403 ''Invalid refresh token'')"
    using c alice_refresh_not_falsy
    by (rule refreshToken_revoked) (simp add: sismember_def world0_redis)
  moreover have "refreshToken env0 2000 (world0 True {}) ?req
          = (world0 True {}, json 403 ''Invalid refresh token'')"
    using c alice_refresh_not_falsy
    by (rule refreshToken_revoked) (simp add: sismember_def world0_redis)
  moreover have "refreshToken env0 2000 (world0 True {alice_refresh}) ?req
          = (world0 True {alice_refresh},
             refreshed env0 (generateAccessToken env0 2000
               (username \<lparr>username = ''alice'', iat = 1000, exp = 2593000\<rparr>)))"
    using c by (rule refreshToken_success)
      (simp_all add: sismember_def world0_redis alice_refresh_verifies)
  moreover have "logout (world0 False {alice_refresh}) ?req
          = (world0 False {alice_refresh},
             (json 500 ''Error logging out'')\<lparr>body_error := Some RedisFailure\<rparr>)"
    by (rule logout_down) (simp add: world0_redis)
  ultimately show ?thesis by simp
qed

end
